theory Spec2Isabelle
  imports Main "HOL-Library.Word"
begin

section \<open>The DHT11 platform driver (dht11\_driver.c)\<close>

text \<open>
  The driver is a Linux platform driver: \<open>dht11_probe\<close> acquires six kernel objects in a
  fixed order, \<open>dht11_remove\<close> gives them back, and \<open>dht11_read\<close> loads one 32-bit
  register through the mapping and copies it to user space. The kernel is not part of the
  source file, so it appears here twice: as an environment that fixes what each kernel
  call answers, and as a kernel state that records which objects are held and in which order
  they were acquired and released. The driver's functions are translated statement by
  statement over that interface. Log output (\<open>printk\<close>, \<open>dev_err\<close>) and the read barrier
  \<open>rmb()\<close> change none of the values modelled and are left out. Releasing an object that
  is not held leaves the held objects as they are and still shows in the trace.
\<close>

subsection \<open>Machine types and constants of the kernel headers\<close>

text \<open>
  \<open>unsigned long\<close>, pointers and physical addresses are 32-bit words (the driver prints
  them with \<open>0x%08lx\<close>); \<open>int\<close> and \<open>ssize_t\<close> results are read as integers, no
  arithmetic is done on them. A NULL pointer is the word 0.
\<close>

type_synonym ulong = "32 word"
type_synonym u32 = "32 word"
type_synonym dev_t = "32 word"
type_synonym loff_t = "64 word"
type_synonym byte = "8 word"

definition ENXIO :: int where "ENXIO = 6"
definition ENOMEM :: int where "ENOMEM = 12"
definition EACCES :: int where "EACCES = 13"
definition ENODEV :: int where "ENODEV = 19"

definition MAX_ERRNO :: ulong where "MAX_ERRNO = 4095"

text \<open>\<open>IS_ERR\<close> of linux/err.h: the pointer lies in the last \<open>MAX_ERRNO\<close> addresses.\<close>

definition IS_ERR :: "ulong \<Rightarrow> bool" where
  "IS_ERR p = (- MAX_ERRNO \<le> p)"

text \<open>\<open>ERR_PTR\<close>: an error code stored in a pointer.\<close>

definition ERR_PTR :: "int \<Rightarrow> ulong" where
  "ERR_PTR e = word_of_int e"

text \<open>\<open>struct resource\<close>: the physical range of the device tree entry.\<close>

record resource =
  r_start :: ulong
  r_end :: ulong

datatype file_operations = Dht11_operations

text \<open>\<open>struct cdev\<close>: the fields \<open>cdev_init\<close> and \<open>cdev_add\<close> write.\<close>

record cdev =
  cdev_ops :: "file_operations option"
  cdev_dev :: dev_t
  cdev_count :: u32

datatype fault = NullDeref | BadIoAccess

subsection \<open>Kernel state: objects held, and the trace of acquisitions and releases\<close>

datatype kobj =
    MemRegion ulong ulong
  | IoMapping ulong
  | ChrdevRegion dev_t u32
  | CdevReg dev_t u32
  | DevClass ulong
  | DevNode ulong dev_t

datatype event = Acquire kobj | Release kobj

record kernel =
  held :: "kobj list"
  trace :: "event list"

definition acquire :: "kobj \<Rightarrow> kernel \<Rightarrow> kernel" where
  "acquire x k = k\<lparr>held := x # held k, trace := trace k @ [Acquire x]\<rparr>"

definition release :: "kobj \<Rightarrow> kernel \<Rightarrow> kernel" where
  "release x k = k\<lparr>held := remove1 x (held k), trace := trace k @ [Release x]\<rparr>"

fun acquired :: "event list \<Rightarrow> kobj list" where
  "acquired [] = []"
| "acquired (Acquire x # es) = x # acquired es"
| "acquired (Release x # es) = acquired es"

fun released :: "event list \<Rightarrow> kobj list" where
  "released [] = []"
| "released (Acquire x # es) = released es"
| "released (Release x # es) = x # released es"

subsection \<open>Kernel environment: what each call of the probe sequence answers\<close>

text \<open>
  One field per kernel call of \<open>dht11_probe\<close>, holding the raw value the call returns:
  a pointer (NULL or not, an error pointer or not) or an \<open>int\<close> status.
  \<open>alloc_chrdev_region_r\<close> also carries the device number stored through \<open>&dev\<close>.
\<close>

record kernel_env =
  platform_get_resource_r :: "resource option"
  request_mem_region_r :: bool
  ioremap_r :: ulong
  alloc_chrdev_region_r :: "int \<times> dev_t"
  cdev_add_r :: int
  class_create_r :: ulong
  device_create_r :: ulong

text \<open>
  What the kernel documents about these results: the two status codes are 0 or a negative
  errno, and \<open>class_create\<close> and \<open>device_create\<close> never answer NULL.
\<close>

definition kernel_contract :: "kernel_env \<Rightarrow> bool" where
  "kernel_contract e =
     (fst (alloc_chrdev_region_r e) \<le> 0 \<and> cdev_add_r e \<le> 0 \<and>
      class_create_r e \<noteq> 0 \<and> device_create_r e \<noteq> 0)"

definition request_mem_region :: "kernel_env \<Rightarrow> ulong \<Rightarrow> ulong \<Rightarrow> kernel \<Rightarrow> bool \<times> kernel" where
  "request_mem_region e start n k =
     (if request_mem_region_r e then (True, acquire (MemRegion start n) k) else (False, k))"

definition release_mem_region :: "ulong \<Rightarrow> ulong \<Rightarrow> kernel \<Rightarrow> kernel" where
  "release_mem_region start n k = release (MemRegion start n) k"

definition ioremap :: "kernel_env \<Rightarrow> ulong \<Rightarrow> ulong \<Rightarrow> kernel \<Rightarrow> ulong \<times> kernel" where
  "ioremap e start n k =
     (if ioremap_r e = 0 then (0, k) else (ioremap_r e, acquire (IoMapping (ioremap_r e)) k))"

definition iounmap :: "ulong \<Rightarrow> kernel \<Rightarrow> kernel" where
  "iounmap a k = release (IoMapping a) k"

text \<open>The device number is stored through the pointer only when the call succeeds.\<close>

definition alloc_chrdev_region ::
  "kernel_env \<Rightarrow> dev_t \<Rightarrow> u32 \<Rightarrow> kernel \<Rightarrow> int \<times> dev_t \<times> kernel" where
  "alloc_chrdev_region e d n k =
     (if fst (alloc_chrdev_region_r e) = 0
      then (0, snd (alloc_chrdev_region_r e),
            acquire (ChrdevRegion (snd (alloc_chrdev_region_r e)) n) k)
      else (fst (alloc_chrdev_region_r e), d, k))"

definition unregister_chrdev_region :: "dev_t \<Rightarrow> u32 \<Rightarrow> kernel \<Rightarrow> kernel" where
  "unregister_chrdev_region d n k = release (ChrdevRegion d n) k"

definition cdev_init :: "file_operations \<Rightarrow> cdev" where
  "cdev_init fops = \<lparr>cdev_ops = Some fops, cdev_dev = 0, cdev_count = 0\<rparr>"

definition cdev_add :: "kernel_env \<Rightarrow> cdev \<Rightarrow> dev_t \<Rightarrow> u32 \<Rightarrow> kernel \<Rightarrow> int \<times> cdev \<times> kernel" where
  "cdev_add e c d n k =
     (let c' = c\<lparr>cdev_dev := d, cdev_count := n\<rparr>
      in if cdev_add_r e < 0 then (cdev_add_r e, c', k)
         else (cdev_add_r e, c', acquire (CdevReg d n) k))"

definition cdev_del :: "cdev \<Rightarrow> kernel \<Rightarrow> kernel" where
  "cdev_del c k = release (CdevReg (cdev_dev c) (cdev_count c)) k"

definition class_create :: "kernel_env \<Rightarrow> kernel \<Rightarrow> ulong \<times> kernel" where
  "class_create e k =
     (if IS_ERR (class_create_r e) then (class_create_r e, k)
      else (class_create_r e, acquire (DevClass (class_create_r e)) k))"

definition class_destroy :: "ulong \<Rightarrow> kernel \<Rightarrow> kernel" where
  "class_destroy c k = release (DevClass c) k"

definition device_create :: "kernel_env \<Rightarrow> ulong \<Rightarrow> dev_t \<Rightarrow> kernel \<Rightarrow> ulong \<times> kernel" where
  "device_create e c d k =
     (if IS_ERR (device_create_r e) then (device_create_r e, k)
      else (device_create_r e, acquire (DevNode c d) k))"

definition device_destroy :: "ulong \<Rightarrow> dev_t \<Rightarrow> kernel \<Rightarrow> kernel" where
  "device_destroy c d k = release (DevNode c d) k"

text \<open>
  \<open>ioread32\<close>: a load through an I/O mapping. The register file is a function from
  virtual addresses to 32-bit values; a load through an address that is not mapped is a
  fault, not a value.
\<close>

type_synonym hardware = "ulong \<Rightarrow> u32"

definition ioread32 :: "kernel \<Rightarrow> hardware \<Rightarrow> ulong \<Rightarrow> fault + u32" where
  "ioread32 k hw a = (if IoMapping a \<in> set (held k) then Inr (hw a) else Inl BadIoAccess)"

text \<open>
  \<open>copy_to_user\<close>: the caller's buffer is described by the number of bytes user space may
  write from its start. The call stores the bytes that fit and returns the number of bytes
  it could not copy.
\<close>

record user_buffer =
  ub_writable :: nat

definition copy_to_user :: "user_buffer \<Rightarrow> byte list \<Rightarrow> nat \<times> byte list" where
  "copy_to_user ub src = (length src - ub_writable ub, take (ub_writable ub) src)"

text \<open>The four bytes of a \<open>uint32_t\<close> in memory, least significant first.\<close>

definition bytes_of_u32 :: "u32 \<Rightarrow> byte list" where
  "bytes_of_u32 d = [ucast d, ucast (drop_bit 8 d), ucast (drop_bit 16 d), ucast (drop_bit 24 d)]"

subsection \<open>The driver's globals\<close>

record driver_state =
  res :: "resource option"
  remap_size :: ulong
  base_addr :: ulong
  dev :: dev_t
  c_dev :: cdev
  cl :: ulong
  kern :: kernel

text \<open>The state at module load: zeroed globals, nothing held.\<close>

definition unattached :: driver_state where
  "unattached =
     \<lparr>res = None, remap_size = 0, base_addr = 0, dev = 0,
      c_dev = \<lparr>cdev_ops = None, cdev_dev = 0, cdev_count = 0\<rparr>, cl = 0,
      kern = \<lparr>held = [], trace = []\<rparr>\<rparr>"

definition new_events :: "driver_state \<Rightarrow> driver_state \<Rightarrow> event list" where
  "new_events s s' = drop (length (trace (kern s))) (trace (kern s'))"

definition io_mapped :: "driver_state \<Rightarrow> bool" where
  "io_mapped s = (IoMapping (base_addr s) \<in> set (held (kern s)))"

subsection \<open>open, close, read\<close>

definition dht11_open :: "ulong \<Rightarrow> ulong \<Rightarrow> driver_state \<Rightarrow> int \<times> driver_state" where
  "dht11_open inode fp s = (0, s)"

definition dht11_close :: "ulong \<Rightarrow> ulong \<Rightarrow> driver_state \<Rightarrow> int \<times> driver_state" where
  "dht11_close inode fp s = (0, s)"

text \<open>
  The result of a read: the \<open>ssize_t\<close> returned, the bytes stored in the caller's buffer,
  and the file position after the call.
\<close>

record read_result =
  rd_ret :: int
  rd_user :: "byte list"
  rd_f_pos :: loff_t

definition dht11_read ::
  "ulong \<Rightarrow> user_buffer \<Rightarrow> ulong \<Rightarrow> loff_t \<Rightarrow> hardware \<Rightarrow> driver_state
     \<Rightarrow> fault + read_result \<times> driver_state" where
  "dht11_read fp buf count f_pos hw s =
     (case ioread32 (kern s) hw (base_addr s) of
        Inl f \<Rightarrow> Inl f
      | Inr data \<Rightarrow>
          (let (not_copied, stored) = copy_to_user buf (bytes_of_u32 data)
           in if not_copied \<noteq> 0
              then Inr (\<lparr>rd_ret = - EACCES, rd_user = stored, rd_f_pos = f_pos\<rparr>, s)
              else Inr (\<lparr>rd_ret = 4, rd_user = stored, rd_f_pos = f_pos\<rparr>, s)))"

subsection \<open>remove\<close>

definition dht11_remove :: "driver_state \<Rightarrow> fault + int \<times> driver_state" where
  "dht11_remove s0 =
     (let s1 = s0\<lparr>kern := device_destroy (cl s0) (dev s0) (kern s0)\<rparr>;
          s2 = s1\<lparr>kern := class_destroy (cl s1) (kern s1)\<rparr>;
          s3 = s2\<lparr>kern := cdev_del (c_dev s2) (kern s2)\<rparr>;
          s4 = s3\<lparr>kern := unregister_chrdev_region (dev s3) 1 (kern s3)\<rparr>;
          s5 = s4\<lparr>kern := iounmap (base_addr s4) (kern s4)\<rparr>
      in case res s5 of
           None \<Rightarrow> Inl NullDeref
         | Some r \<Rightarrow>
             Inr (0, s5\<lparr>kern := release_mem_region (r_start r) (remap_size s5) (kern s5)\<rparr>))"

subsection \<open>probe\<close>

text \<open>The five labels at the end of \<open>dht11_probe\<close>; each falls through to the next.\<close>

definition err_release_region :: "int \<Rightarrow> driver_state \<Rightarrow> fault + int \<times> driver_state" where
  "err_release_region ret s =
     (case res s of
        None \<Rightarrow> Inl NullDeref
      | Some r \<Rightarrow>
          Inr (ret, s\<lparr>kern := release_mem_region (r_start r) (remap_size s) (kern s)\<rparr>))"

definition err_unmap :: "int \<Rightarrow> driver_state \<Rightarrow> fault + int \<times> driver_state" where
  "err_unmap ret s = err_release_region ret (s\<lparr>kern := iounmap (base_addr s) (kern s)\<rparr>)"

definition err_unregister :: "int \<Rightarrow> driver_state \<Rightarrow> fault + int \<times> driver_state" where
  "err_unregister ret s =
     err_unmap ret (s\<lparr>kern := unregister_chrdev_region (dev s) 1 (kern s)\<rparr>)"

definition err_delete_cdev :: "int \<Rightarrow> driver_state \<Rightarrow> fault + int \<times> driver_state" where
  "err_delete_cdev ret s = err_unregister ret (s\<lparr>kern := cdev_del (c_dev s) (kern s)\<rparr>)"

definition err_class_destroy :: "int \<Rightarrow> driver_state \<Rightarrow> fault + int \<times> driver_state" where
  "err_class_destroy ret s = err_delete_cdev ret (s\<lparr>kern := class_destroy (cl s) (kern s)\<rparr>)"

definition dht11_probe :: "kernel_env \<Rightarrow> driver_state \<Rightarrow> fault + int \<times> driver_state" where
  "dht11_probe e s0 =
     (let s1 = s0\<lparr>res := platform_get_resource_r e\<rparr>
      in case res s1 of
           None \<Rightarrow> Inr (- ENODEV, s1)
         | Some r \<Rightarrow>
             (let s2 = s1\<lparr>remap_size := r_end r - r_start r + 1\<rparr>;
                  (ok, k) = request_mem_region e (r_start r) (remap_size s2) (kern s2);
                  s3 = s2\<lparr>kern := k\<rparr>
              in if \<not> ok then Inr (- ENXIO, s3)
                 else
                   (let (va, k) = ioremap e (r_start r) (remap_size s3) (kern s3);
                        s4 = s3\<lparr>base_addr := va, kern := k\<rparr>
                    in if base_addr s4 = 0 then err_release_region (- ENOMEM) s4
                       else
                         (let (ret, d, k) = alloc_chrdev_region e (dev s4) 1 (kern s4);
                              s5 = s4\<lparr>dev := d, kern := k\<rparr>
                          in if ret \<noteq> 0 then err_unmap ret s5
                             else
                               (let s6 = s5\<lparr>c_dev := cdev_init Dht11_operations\<rparr>;
                                    (ret, c, k) = cdev_add e (c_dev s6) (dev s6) 1 (kern s6);
                                    s7 = s6\<lparr>c_dev := c, kern := k\<rparr>
                                in if ret < 0 then err_unregister ret s7
                                   else
                                     (let (p, k) = class_create e (kern s7);
                                          s8 = s7\<lparr>cl := p, kern := k\<rparr>
                                      in if IS_ERR (cl s8) then err_delete_cdev ret s8
                                         else
                                           (let (dev_ret, k) =
                                                  device_create e (cl s8) (dev s8) (kern s8);
                                                s9 = s8\<lparr>kern := k\<rparr>
                                            in if IS_ERR dev_ret then err_class_destroy ret s9
                                               else Inr (0, s9))))))))"

subsection \<open>The acquisition steps of probe\<close>

text \<open>
  The seven steps of \<open>dht11_probe\<close> in the order of the source, and the first of them that
  fails in a given environment, decided by the very tests the source applies to each result
  (\<open>!res\<close>, \<open>!request_mem_region(...)\<close>, \<open>base_addr == NULL\<close>, a non-zero status, a negative
  status, \<open>IS_ERR\<close> twice). \<open>None\<close>: every step succeeds.
\<close>

datatype step = GetResource | RequestRegion | Ioremap | AllocChrdev | CdevAdd | ClassCreate | DeviceCreate

definition failing_step :: "kernel_env \<Rightarrow> step option" where
  "failing_step e =
     (if platform_get_resource_r e = None then Some GetResource
      else if \<not> request_mem_region_r e then Some RequestRegion
      else if ioremap_r e = 0 then Some Ioremap
      else if fst (alloc_chrdev_region_r e) \<noteq> 0 then Some AllocChrdev
      else if cdev_add_r e < 0 then Some CdevAdd
      else if IS_ERR (class_create_r e) then Some ClassCreate
      else if IS_ERR (device_create_r e) then Some DeviceCreate
      else None)"

text \<open>
  The objects a probe acquires when every step succeeds, in the order of acquisition, and
  the number of them acquired before each step.
\<close>

definition probe_objects :: "kernel_env \<Rightarrow> kobj list" where
  "probe_objects e =
     (case platform_get_resource_r e of
        None \<Rightarrow> []
      | Some r \<Rightarrow>
          [MemRegion (r_start r) (r_end r - r_start r + 1),
           IoMapping (ioremap_r e),
           ChrdevRegion (snd (alloc_chrdev_region_r e)) 1,
           CdevReg (snd (alloc_chrdev_region_r e)) 1,
           DevClass (class_create_r e),
           DevNode (class_create_r e) (snd (alloc_chrdev_region_r e))])"

fun objects_before :: "step \<Rightarrow> nat" where
  "objects_before GetResource = 0"
| "objects_before RequestRegion = 0"
| "objects_before Ioremap = 1"
| "objects_before AllocChrdev = 2"
| "objects_before CdevAdd = 3"
| "objects_before ClassCreate = 4"
| "objects_before DeviceCreate = 5"

datatype kobj_kind = KMemRegion | KIoMapping | KChrdevRegion | KCdevReg | KDevClass | KDevNode

fun kind_of :: "kobj \<Rightarrow> kobj_kind" where
  "kind_of (MemRegion a n) = KMemRegion"
| "kind_of (IoMapping a) = KIoMapping"
| "kind_of (ChrdevRegion d n) = KChrdevRegion"
| "kind_of (CdevReg d n) = KCdevReg"
| "kind_of (DevClass c) = KDevClass"
| "kind_of (DevNode c d) = KDevNode"

subsection \<open>Concrete environments and states\<close>

text \<open>
  An environment in which every call succeeds (a 4 KiB register window at 0x43C00000,
  mapped at 0xF0A00000, device number 245:0), variants of it in which one call fails, the
  state a probe reaches from \<open>unattached\<close> in the first, and a register file.
\<close>

definition env_ok :: kernel_env where
  "env_ok =
     \<lparr>platform_get_resource_r = Some \<lparr>r_start = 0x43C00000, r_end = 0x43C00FFF\<rparr>,
      request_mem_region_r = True,
      ioremap_r = 0xF0A00000,
      alloc_chrdev_region_r = (0, 0x0F500000),
      cdev_add_r = 0,
      class_create_r = 0xC1000000,
      device_create_r = 0xC2000000\<rparr>"

definition env_class_create_fails :: kernel_env where
  "env_class_create_fails = env_ok\<lparr>class_create_r := ERR_PTR (- ENOMEM)\<rparr>"

definition env_device_create_fails :: kernel_env where
  "env_device_create_fails = env_ok\<lparr>device_create_r := ERR_PTR (- ENOMEM)\<rparr>"

definition env_no_resource :: kernel_env where
  "env_no_resource = env_ok\<lparr>platform_get_resource_r := None\<rparr>"

definition env_cdev_add_fails :: kernel_env where
  "env_cdev_add_fails = env_ok\<lparr>cdev_add_r := - ENOMEM\<rparr>"

definition attached_example :: driver_state where
  "attached_example =
     \<lparr>res = Some \<lparr>r_start = 0x43C00000, r_end = 0x43C00FFF\<rparr>,
      remap_size = 0x1000, base_addr = 0xF0A00000, dev = 0x0F500000,
      c_dev = \<lparr>cdev_ops = Some Dht11_operations, cdev_dev = 0x0F500000, cdev_count = 1\<rparr>,
      cl = 0xC1000000,
      kern =
        \<lparr>held =
           [DevNode 0xC1000000 0x0F500000, DevClass 0xC1000000, CdevReg 0x0F500000 1,
            ChrdevRegion 0x0F500000 1, IoMapping 0xF0A00000, MemRegion 0x43C00000 0x1000],
         trace =
           [Acquire (MemRegion 0x43C00000 0x1000), Acquire (IoMapping 0xF0A00000),
            Acquire (ChrdevRegion 0x0F500000 1), Acquire (CdevReg 0x0F500000 1),
            Acquire (DevClass 0xC1000000), Acquire (DevNode 0xC1000000 0x0F500000)]\<rparr>\<rparr>"

definition sensor_example :: hardware where
  "sensor_example a = (if a = 0xF0A00000 then 0x12345678 else 0)"

section \<open>Properties\<close>

subsection \<open>Auxiliary facts\<close>

lemmas errno_defs = ENXIO_def ENOMEM_def EACCES_def ENODEV_def

lemmas kernel_defs = acquire_def release_def request_mem_region_def release_mem_region_def
  ioremap_def iounmap_def alloc_chrdev_region_def unregister_chrdev_region_def cdev_init_def
  cdev_add_def cdev_del_def class_create_def class_destroy_def device_create_def
  device_destroy_def

lemmas label_defs = err_release_region_def err_unmap_def err_unregister_def
  err_delete_cdev_def err_class_destroy_def

lemmas env_defs = env_ok_def env_class_create_fails_def env_device_create_fails_def
  env_no_resource_def env_cdev_add_fails_def

lemma acquired_map_Acquire [simp]: "acquired (map Acquire xs) = xs"
  by (induction xs) simp_all

lemma released_map_Acquire [simp]: "released (map Acquire xs) = []"
  by (induction xs) simp_all

lemma IS_ERR_ERR_PTR_ENOMEM: "IS_ERR (ERR_PTR (- ENOMEM))"
  by (simp add: IS_ERR_def ERR_PTR_def MAX_ERRNO_def ENOMEM_def)

lemma not_IS_ERR_examples: "\<not> IS_ERR 0xC1000000" "\<not> IS_ERR 0xC2000000"
  by (simp_all add: IS_ERR_def MAX_ERRNO_def)

lemma failing_step_examples:
  "failing_step env_ok = None"
  "failing_step env_class_create_fails = Some ClassCreate"
  "failing_step env_device_create_fails = Some DeviceCreate"
  "failing_step env_no_resource = Some GetResource"
  by (simp_all add: failing_step_def env_defs IS_ERR_ERR_PTR_ENOMEM not_IS_ERR_examples)

lemma failing_step_NoneD:
  assumes "failing_step e = None"
  shows "\<exists>r. platform_get_resource_r e = Some r" "request_mem_region_r e" "ioremap_r e \<noteq> 0"
    "fst (alloc_chrdev_region_r e) = 0" "\<not> cdev_add_r e < 0"
    "\<not> IS_ERR (class_create_r e)" "\<not> IS_ERR (device_create_r e)"
  using assms by (auto simp: failing_step_def split: if_splits)

text \<open>The example state is the one a probe reaches when every call succeeds.\<close>

lemma probe_env_ok: "dht11_probe env_ok unattached = Inr (0, attached_example)"
  by (simp add: dht11_probe_def kernel_defs env_defs unattached_def attached_example_def
      Let_def not_IS_ERR_examples)

lemma io_mapped_attached_example: "io_mapped attached_example"
  by (simp add: io_mapped_def attached_example_def)

text \<open>
  A probe in which every step succeeds returns 0, holds the six objects on top of what was
  held before, and leaves in the globals exactly the handles that name them.
\<close>

lemma probe_success:
  assumes "failing_step e = None"
  shows "\<exists>s1 r. dht11_probe e s = Inr (0, s1) \<and>
     held (kern s1) = rev (probe_objects e) @ held (kern s) \<and>
     trace (kern s1) = trace (kern s) @ map Acquire (probe_objects e) \<and>
     res s1 = Some r \<and>
     probe_objects e =
       [MemRegion (r_start r) (remap_size s1), IoMapping (base_addr s1),
        ChrdevRegion (dev s1) 1, CdevReg (cdev_dev (c_dev s1)) (cdev_count (c_dev s1)),
        DevClass (cl s1), DevNode (cl s1) (dev s1)]"
proof -
  from failing_step_NoneD(1) [OF assms] obtain r where r: "platform_get_resource_r e = Some r" ..
  note ok = failing_step_NoneD(2-) [OF assms]
  show ?thesis
    using ok
    by (simp add: r dht11_probe_def kernel_defs probe_objects_def Let_def)
qed

text \<open>
  What \<open>dht11_remove\<close> does in any state whose \<open>res\<close> is not NULL: six releases, named by
  the globals, in the order of the source.
\<close>

lemma remove_trace:
  assumes "res s = Some r"
  shows "\<exists>s'. dht11_remove s = Inr (0, s') \<and>
     trace (kern s') = trace (kern s) @
       [Release (DevNode (cl s) (dev s)), Release (DevClass (cl s)),
        Release (CdevReg (cdev_dev (c_dev s)) (cdev_count (c_dev s))),
        Release (ChrdevRegion (dev s) 1), Release (IoMapping (base_addr s)),
        Release (MemRegion (r_start r) (remap_size s))] \<and>
     held (kern s') =
       remove1 (MemRegion (r_start r) (remap_size s))
         (remove1 (IoMapping (base_addr s))
           (remove1 (ChrdevRegion (dev s) 1)
             (remove1 (CdevReg (cdev_dev (c_dev s)) (cdev_count (c_dev s)))
               (remove1 (DevClass (cl s))
                 (remove1 (DevNode (cl s) (dev s)) (held (kern s)))))))"
  using assms by (simp add: dht11_remove_def kernel_defs Let_def)

text \<open>With \<open>res\<close> still NULL (no probe has run), \<open>dht11_remove\<close> dereferences NULL.\<close>

lemma remove_without_resource:
  assumes "res s = None"
  shows "dht11_remove s = Inl NullDeref"
  using assms by (simp add: dht11_remove_def Let_def)

text \<open>A read through an address that is not mapped faults.\<close>

lemma read_unmapped_faults:
  assumes "\<not> io_mapped s"
  shows "dht11_read fp buf count f_pos hw s = Inl BadIoAccess"
  using assms by (simp add: dht11_read_def ioread32_def io_mapped_def)

subsection \<open>Return code of a failing probe\<close>

text \<open>
  When one of the first five steps fails, and the kernel keeps to its contract, the probe
  returns a negative code.
\<close>

lemma probe_early_failure_negative:
  assumes "kernel_contract e" and "failing_step e = Some n"
    and "n \<noteq> ClassCreate" and "n \<noteq> DeviceCreate"
  shows "\<exists>ret s'. dht11_probe e s = Inr (ret, s') \<and> ret < 0"
  using assms
  by (auto simp: failing_step_def kernel_contract_def dht11_probe_def label_defs kernel_defs
      errno_defs Let_def split: if_splits option.splits)

text \<open>
  When \<open>class_create\<close> or \<open>device_create\<close> fails, \<open>ret\<close> is not assigned again: the probe
  returns what \<open>cdev_add\<close> returned, which is not negative.
\<close>

lemma probe_late_failure_not_negative:
  assumes "failing_step e = Some n" and "n = ClassCreate \<or> n = DeviceCreate"
  shows "\<exists>s'. dht11_probe e s = Inr (cdev_add_r e, s') \<and> 0 \<le> cdev_add_r e"
  using assms
  by (auto simp: failing_step_def dht11_probe_def label_defs kernel_defs
      Let_def split: if_splits option.splits)

text \<open>
  The sibling path: when \<open>cdev_add\<close> fails, \<open>ret\<close> holds its negative code and the
  probe returns it.
\<close>

lemma probe_cdev_add_failure_enomem:
  "\<exists>s'. dht11_probe env_cdev_add_fails unattached = Inr (- ENOMEM, s') \<and> held (kern s') = []"
  by (simp add: dht11_probe_def label_defs kernel_defs env_defs unattached_def Let_def
      ENOMEM_def)

text \<open>
  C1 (every failing probe returns a negative error code, class or device creation failures
  included). The code at the input where \<open>class_create\<close> answers \<open>ERR_PTR(-ENOMEM)\<close> and
  every earlier call succeeds: the probe undoes its four acquisitions and returns 0, the
  value \<open>ret\<close> kept from \<open>cdev_add\<close>.
\<close>

theorem probe_class_create_failure_returns_success:
  "\<exists>s'. dht11_probe env_class_create_fails unattached = Inr (0, s') \<and> held (kern s') = []"
  by (simp add: dht11_probe_def label_defs kernel_defs env_defs unattached_def Let_def
      IS_ERR_ERR_PTR_ENOMEM)

subsection \<open>The mapping and the attached state\<close>

lemma probe_all_steps_mapped:
  assumes "failing_step e = None"
  shows "\<exists>s'. dht11_probe e s = Inr (0, s') \<and> io_mapped s' \<and>
     DevNode (cl s') (dev s') \<in> set (held (kern s'))"
  using assms
  by (auto simp: failing_step_def dht11_probe_def kernel_defs io_mapped_def
      Let_def split: if_splits option.splits)

text \<open>No device node is created by a probe whose \<open>ioremap\<close> fails.\<close>

lemma probe_no_node_without_mapping:
  assumes "ioremap_r e = 0" and "dht11_probe e s = Inr (ret, s')"
  shows "DevNode c d \<notin> set (acquired (new_events s s'))"
  using assms
  by (auto simp: dht11_probe_def label_defs kernel_defs new_events_def
      Let_def split: if_splits option.splits)

text \<open>
  C2 (the mapping is valid if and only if probe returned success and remove has not run).
  The code at the input where \<open>device_create\<close> answers \<open>ERR_PTR(-ENOMEM)\<close> and every
  earlier call succeeds: the probe returns 0, the mapping has been undone, and \<open>base_addr\<close>
  still holds the address that was mapped.
\<close>

theorem probe_device_create_failure_success_unmapped:
  "\<exists>s'. dht11_probe env_device_create_fails unattached = Inr (0, s') \<and> \<not> io_mapped s'
     \<and> base_addr s' = 0xF0A00000"
  by (simp add: dht11_probe_def label_defs kernel_defs env_defs unattached_def Let_def
      IS_ERR_ERR_PTR_ENOMEM not_IS_ERR_examples io_mapped_def)

subsection \<open>Rollback of a failing probe\<close>

text \<open>
  C3. Whichever step of the probe fails first, the probe returns, the objects it acquired
  are those of the steps before the failing one, it released exactly them in the reverse
  order, and the kernel holds afterwards what it held before the probe.
\<close>

theorem probe_failure_rolls_back:
  assumes "failing_step e = Some n"
  shows "\<exists>ret s'. dht11_probe e s = Inr (ret, s') \<and>
     held (kern s') = held (kern s) \<and>
     acquired (new_events s s') = take (objects_before n) (probe_objects e) \<and>
     released (new_events s s') = rev (acquired (new_events s s'))"
  using assms
  by (auto simp: failing_step_def dht11_probe_def label_defs kernel_defs probe_objects_def
      new_events_def Let_def split: if_splits option.splits)

theorem probe_failure_rolls_back_witness:
  "failing_step env_device_create_fails = Some DeviceCreate \<and>
   (\<exists>ret s'. dht11_probe env_device_create_fails unattached = Inr (ret, s') \<and>
      held (kern s') = [] \<and>
      acquired (new_events unattached s') =
        [MemRegion 0x43C00000 0x1000, IoMapping 0xF0A00000, ChrdevRegion 0x0F500000 1,
         CdevReg 0x0F500000 1, DevClass 0xC1000000] \<and>
      released (new_events unattached s') =
        [DevClass 0xC1000000, CdevReg 0x0F500000 1, ChrdevRegion 0x0F500000 1,
         IoMapping 0xF0A00000, MemRegion 0x43C00000 0x1000])"
proof -
  have f: "failing_step env_device_create_fails = Some DeviceCreate"
    by (rule failing_step_examples)
  have o: "take (objects_before DeviceCreate) (probe_objects env_device_create_fails) =
    [MemRegion 0x43C00000 0x1000, IoMapping 0xF0A00000, ChrdevRegion 0x0F500000 1,
     CdevReg 0x0F500000 1, DevClass 0xC1000000]"
    by (simp add: probe_objects_def env_defs)
  have u: "held (kern unattached) = []"
    by (simp add: unattached_def)
  from probe_failure_rolls_back [OF f, of unattached] f show ?thesis
    unfolding o u by auto
qed

subsection \<open>Read\<close>

text \<open>
  C4. A read through a valid mapping returns. When \<open>copy_to_user\<close> copies everything, the
  result is exactly 4 and the four bytes of the register are stored in the caller's buffer;
  when \<open>copy_to_user\<close> reports bytes it could not copy, the result is the negative code
  \<open>-EACCES\<close>. So the result is 4 or negative: it is never 0 and never a count between 0
  and 4.
\<close>

theorem read_returns_4_or_error:
  assumes "io_mapped s"
  shows "\<exists>r. dht11_read fp buf count f_pos hw s = Inr (r, s) \<and>
     (fst (copy_to_user buf (bytes_of_u32 (hw (base_addr s)))) = 0 \<longrightarrow>
        rd_ret r = 4 \<and> rd_user r = bytes_of_u32 (hw (base_addr s)) \<and>
        length (rd_user r) = 4) \<and>
     (fst (copy_to_user buf (bytes_of_u32 (hw (base_addr s)))) \<noteq> 0 \<longrightarrow>
        rd_ret r = - EACCES \<and> rd_ret r < 0) \<and>
     (rd_ret r = 4 \<and> length (rd_user r) = 4 \<or> rd_ret r = - EACCES) \<and>
     (rd_ret r = 4 \<or> rd_ret r < 0) \<and> rd_ret r \<noteq> 0 \<and> \<not> (0 < rd_ret r \<and> rd_ret r < 4)"
  using assms
  by (auto simp: dht11_read_def ioread32_def io_mapped_def copy_to_user_def bytes_of_u32_def
      EACCES_def)

theorem read_returns_4_or_error_witness:
  "io_mapped attached_example \<and>
   fst (copy_to_user \<lparr>ub_writable = 4\<rparr>
          (bytes_of_u32 (sensor_example (base_addr attached_example)))) = 0 \<and>
   (\<exists>r. dht11_read 0 \<lparr>ub_writable = 4\<rparr> 4 0 sensor_example attached_example
          = Inr (r, attached_example) \<and> rd_ret r = 4 \<and>
        rd_user r = [0x78, 0x56, 0x34, 0x12]) \<and>
   fst (copy_to_user \<lparr>ub_writable = 0\<rparr>
          (bytes_of_u32 (sensor_example (base_addr attached_example)))) \<noteq> 0 \<and>
   (\<exists>r. dht11_read 0 \<lparr>ub_writable = 0\<rparr> 4 0 sensor_example attached_example
          = Inr (r, attached_example) \<and> rd_ret r = - 13)"
proof -
  have ok: "fst (copy_to_user \<lparr>ub_writable = 4\<rparr>
          (bytes_of_u32 (sensor_example (base_addr attached_example)))) = 0"
    by (simp add: copy_to_user_def bytes_of_u32_def)
  have bad: "fst (copy_to_user \<lparr>ub_writable = 0\<rparr>
          (bytes_of_u32 (sensor_example (base_addr attached_example)))) \<noteq> 0"
    by (simp add: copy_to_user_def bytes_of_u32_def)
  have bytes: "bytes_of_u32 (sensor_example (base_addr attached_example))
      = [0x78, 0x56, 0x34, 0x12]"
    by (simp add: bytes_of_u32_def sensor_example_def attached_example_def)
  from read_returns_4_or_error [where s = attached_example and hw = sensor_example
      and buf = "\<lparr>ub_writable = 4\<rparr>" and fp = 0 and count = 4 and f_pos = 0,
      OF io_mapped_attached_example] ok bytes
  have a: "\<exists>r. dht11_read 0 \<lparr>ub_writable = 4\<rparr> 4 0 sensor_example attached_example
          = Inr (r, attached_example) \<and> rd_ret r = 4 \<and>
        rd_user r = [0x78, 0x56, 0x34, 0x12]"
    by auto
  from read_returns_4_or_error [where s = attached_example and hw = sensor_example
      and buf = "\<lparr>ub_writable = 0\<rparr>" and fp = 0 and count = 4 and f_pos = 0,
      OF io_mapped_attached_example] bad
  have b: "\<exists>r. dht11_read 0 \<lparr>ub_writable = 0\<rparr> 4 0 sensor_example attached_example
          = Inr (r, attached_example) \<and> rd_ret r = - 13"
    by (auto simp: EACCES_def)
  from io_mapped_attached_example ok a bad b show ?thesis
    by (intro conjI)
qed

subsection \<open>Remove after a successful probe\<close>

text \<open>
  C5. After a probe in which every acquisition step succeeds, \<open>dht11_remove\<close> returns 0
  and releases exactly the six objects the probe acquired, in the reverse order of their
  acquisition: device node, class, character device, device-number region, mapping,
  memory region. As many objects are released as were acquired, and the kernel holds
  afterwards what it held before the probe.
\<close>

theorem remove_releases_in_reverse_order:
  assumes "failing_step e = None"
  shows "\<exists>s1 s2. dht11_probe e s = Inr (0, s1) \<and>
     acquired (new_events s s1) = probe_objects e \<and>
     released (new_events s s1) = [] \<and>
     dht11_remove s1 = Inr (0, s2) \<and>
     acquired (new_events s1 s2) = [] \<and>
     released (new_events s1 s2) = rev (probe_objects e) \<and>
     map kind_of (released (new_events s1 s2)) =
       [KDevNode, KDevClass, KCdevReg, KChrdevRegion, KIoMapping, KMemRegion] \<and>
     length (released (new_events s1 s2)) = length (acquired (new_events s s1)) \<and>
     held (kern s2) = held (kern s)"
proof -
  from probe_success [OF assms, of s] obtain s1 r where
    p: "dht11_probe e s = Inr (0, s1)" and
    h1: "held (kern s1) = rev (probe_objects e) @ held (kern s)" and
    t1: "trace (kern s1) = trace (kern s) @ map Acquire (probe_objects e)" and
    r: "res s1 = Some r" and
    objs: "probe_objects e =
       [MemRegion (r_start r) (remap_size s1), IoMapping (base_addr s1),
        ChrdevRegion (dev s1) 1, CdevReg (cdev_dev (c_dev s1)) (cdev_count (c_dev s1)),
        DevClass (cl s1), DevNode (cl s1) (dev s1)]"
    by blast
  from remove_trace [OF r] obtain s2 where
    rm: "dht11_remove s1 = Inr (0, s2)" and
    t2: "trace (kern s2) = trace (kern s1) @
       [Release (DevNode (cl s1) (dev s1)), Release (DevClass (cl s1)),
        Release (CdevReg (cdev_dev (c_dev s1)) (cdev_count (c_dev s1))),
        Release (ChrdevRegion (dev s1) 1), Release (IoMapping (base_addr s1)),
        Release (MemRegion (r_start r) (remap_size s1))]" and
    h2: "held (kern s2) =
       remove1 (MemRegion (r_start r) (remap_size s1))
         (remove1 (IoMapping (base_addr s1))
           (remove1 (ChrdevRegion (dev s1) 1)
             (remove1 (CdevReg (cdev_dev (c_dev s1)) (cdev_count (c_dev s1)))
               (remove1 (DevClass (cl s1))
                 (remove1 (DevNode (cl s1) (dev s1)) (held (kern s1)))))))"
    by blast
  have e1: "new_events s s1 = map Acquire (probe_objects e)"
    by (simp add: new_events_def t1)
  have e2: "new_events s1 s2 =
       [Release (DevNode (cl s1) (dev s1)), Release (DevClass (cl s1)),
        Release (CdevReg (cdev_dev (c_dev s1)) (cdev_count (c_dev s1))),
        Release (ChrdevRegion (dev s1) 1), Release (IoMapping (base_addr s1)),
        Release (MemRegion (r_start r) (remap_size s1))]"
    by (simp add: new_events_def t2)
  have a1: "acquired (new_events s s1) = probe_objects e"
    and a2: "released (new_events s s1) = []"
    by (simp_all add: e1)
  have b1: "acquired (new_events s1 s2) = []"
    by (simp add: e2)
  have b2: "released (new_events s1 s2) = rev (probe_objects e)"
    by (simp add: e2 objs)
  have b3: "map kind_of (released (new_events s1 s2)) =
       [KDevNode, KDevClass, KCdevReg, KChrdevRegion, KIoMapping, KMemRegion]"
    by (simp add: e2)
  have b4: "length (released (new_events s1 s2)) = length (acquired (new_events s s1))"
    by (simp add: b2 a1)
  have h: "held (kern s2) = held (kern s)"
    unfolding h2 h1 by (simp add: objs)
  from p a1 a2 rm b1 b2 b3 b4 h show ?thesis
    by (intro exI [of _ s1] exI [of _ s2] conjI)
qed

theorem remove_releases_in_reverse_order_witness:
  "failing_step env_ok = None \<and>
   (\<exists>s1 s2. dht11_probe env_ok unattached = Inr (0, s1) \<and>
      acquired (new_events unattached s1) =
        [MemRegion 0x43C00000 0x1000, IoMapping 0xF0A00000, ChrdevRegion 0x0F500000 1,
         CdevReg 0x0F500000 1, DevClass 0xC1000000, DevNode 0xC1000000 0x0F500000] \<and>
      dht11_remove s1 = Inr (0, s2) \<and>
      released (new_events s1 s2) =
        [DevNode 0xC1000000 0x0F500000, DevClass 0xC1000000, CdevReg 0x0F500000 1,
         ChrdevRegion 0x0F500000 1, IoMapping 0xF0A00000, MemRegion 0x43C00000 0x1000] \<and>
      held (kern s2) = [])"
proof -
  have f: "failing_step env_ok = None"
    by (rule failing_step_examples)
  have o: "probe_objects env_ok =
    [MemRegion 0x43C00000 0x1000, IoMapping 0xF0A00000, ChrdevRegion 0x0F500000 1,
     CdevReg 0x0F500000 1, DevClass 0xC1000000, DevNode 0xC1000000 0x0F500000]"
    by (simp add: probe_objects_def env_defs)
  have u: "held (kern unattached) = []"
    by (simp add: unattached_def)
  from remove_releases_in_reverse_order [OF f, of unattached] obtain s1 s2 where
    "dht11_probe env_ok unattached = Inr (0, s1)"
    "acquired (new_events unattached s1) = probe_objects env_ok"
    "dht11_remove s1 = Inr (0, s2)"
    "released (new_events s1 s2) = rev (probe_objects env_ok)"
    "held (kern s2) = held (kern unattached)"
    by blast
  then show ?thesis
    unfolding o u using f by auto
qed

subsection \<open>A read whose copy fails\<close>

text \<open>
  C6. When \<open>copy_to_user\<close> reports bytes it could not copy, the read returns \<open>-EACCES\<close>
  and the driver state after the call is the state before it.
\<close>

theorem read_copy_failure_eacces:
  assumes "io_mapped s"
    and "fst (copy_to_user buf (bytes_of_u32 (hw (base_addr s)))) \<noteq> 0"
  shows "\<exists>r. dht11_read fp buf count f_pos hw s = Inr (r, s) \<and> rd_ret r = - EACCES"
  using assms
  by (auto simp: dht11_read_def ioread32_def io_mapped_def split: prod.splits)

theorem read_copy_failure_eacces_witness:
  "io_mapped attached_example \<and>
   fst (copy_to_user \<lparr>ub_writable = 2\<rparr>
          (bytes_of_u32 (sensor_example (base_addr attached_example)))) \<noteq> 0 \<and>
   (\<exists>r. dht11_read 0 \<lparr>ub_writable = 2\<rparr> 4 0 sensor_example attached_example
          = Inr (r, attached_example) \<and> rd_ret r = - 13)"
proof -
  have c: "fst (copy_to_user \<lparr>ub_writable = 2\<rparr>
          (bytes_of_u32 (sensor_example (base_addr attached_example)))) \<noteq> 0"
    by (simp add: copy_to_user_def bytes_of_u32_def)
  from read_copy_failure_eacces [where s = attached_example and hw = sensor_example
      and buf = "\<lparr>ub_writable = 2\<rparr>" and fp = 0 and count = 4 and f_pos = 0,
      OF io_mapped_attached_example c]
    io_mapped_attached_example c
  show ?thesis by (auto simp: EACCES_def)
qed

subsection \<open>Probe without a memory resource\<close>

text \<open>
  C7. When the platform supplies no memory resource, the probe returns \<open>-ENODEV\<close>; it
  makes no kernel call that acquires or releases anything, so no region is reserved, nothing
  is mapped and no device node is created. The only global written is \<open>res\<close>, with NULL.
\<close>

theorem probe_no_resource_enodev:
  assumes "platform_get_resource_r e = None"
  shows "dht11_probe e s = Inr (- ENODEV, s\<lparr>res := None\<rparr>) \<and>
     new_events s (s\<lparr>res := None\<rparr>) = [] \<and> kern (s\<lparr>res := None\<rparr>) = kern s"
  using assms by (simp add: dht11_probe_def new_events_def)

theorem probe_no_resource_enodev_witness:
  "platform_get_resource_r env_no_resource = None \<and>
   dht11_probe env_no_resource unattached = Inr (- 19, unattached) \<and>
   held (kern unattached) = [] \<and> trace (kern unattached) = []"
proof -
  have n: "platform_get_resource_r env_no_resource = None"
    by (simp add: env_defs)
  have u: "unattached\<lparr>res := None\<rparr> = unattached"
    by (simp add: unattached_def)
  from probe_no_resource_enodev [OF n, of unattached] n show ?thesis
    unfolding u by (simp add: ENODEV_def unattached_def)
qed

subsection \<open>Two reads of an unchanged register\<close>

text \<open>
  C8. Two reads, the second in the state the first leaves, over the same register contents,
  both returning 4: the same four bytes are stored in the caller's buffer by both, the bytes
  of the register behind \<open>base_addr\<close>.
\<close>

theorem read_twice_same_bytes:
  assumes "dht11_read fp1 buf1 count1 pos1 hw s = Inr (r1, s1)"
    and "dht11_read fp2 buf2 count2 pos2 hw s1 = Inr (r2, s2)"
    and "rd_ret r1 = 4" and "rd_ret r2 = 4"
  shows "rd_user r1 = rd_user r2 \<and> rd_user r1 = bytes_of_u32 (hw (base_addr s)) \<and>
     length (rd_user r1) = 4"
  using assms
  by (auto simp: dht11_read_def ioread32_def copy_to_user_def bytes_of_u32_def EACCES_def
      split: if_splits)

theorem read_twice_same_bytes_witness:
  "\<exists>r1 r2.
     dht11_read 0 \<lparr>ub_writable = 4\<rparr> 4 0 sensor_example attached_example
       = Inr (r1, attached_example) \<and>
     dht11_read 0 \<lparr>ub_writable = 8\<rparr> 8 0 sensor_example attached_example
       = Inr (r2, attached_example) \<and>
     rd_ret r1 = 4 \<and> rd_ret r2 = 4 \<and>
     rd_user r1 = rd_user r2 \<and> rd_user r1 = [0x78, 0x56, 0x34, 0x12]"
proof -
  let ?r1 = "\<lparr>rd_ret = 4, rd_user = [0x78, 0x56, 0x34, 0x12 :: byte], rd_f_pos = 0 :: loff_t\<rparr>"
  have a: "dht11_read 0 \<lparr>ub_writable = 4\<rparr> 4 0 sensor_example attached_example
       = Inr (?r1, attached_example)"
    by (simp add: dht11_read_def ioread32_def attached_example_def copy_to_user_def
        bytes_of_u32_def sensor_example_def)
  have b: "dht11_read 0 \<lparr>ub_writable = 8\<rparr> 8 0 sensor_example attached_example
       = Inr (?r1, attached_example)"
    by (simp add: dht11_read_def ioread32_def attached_example_def copy_to_user_def
        bytes_of_u32_def sensor_example_def)
  from read_twice_same_bytes [OF a b] a b show ?thesis
    by auto
qed

subsection \<open>Read ignores count and file position\<close>

text \<open>
  C9. A read through a valid mapping leaves the file position as it was and never returns 0
  (so no read signals end of file); when the caller's buffer takes four bytes it stores the
  four bytes of the register and returns 4, whatever \<open>count\<close> is; and with any other
  \<open>count\<close> and file position the result is the same, up to the position handed back.
\<close>

theorem read_ignores_count_and_position:
  assumes "io_mapped s"
  shows "\<exists>r. dht11_read fp buf count f_pos hw s = Inr (r, s) \<and>
     rd_f_pos r = f_pos \<and> rd_ret r \<noteq> 0 \<and>
     (4 \<le> ub_writable buf \<longrightarrow>
        rd_ret r = 4 \<and> rd_user r = bytes_of_u32 (hw (base_addr s)) \<and> length (rd_user r) = 4) \<and>
     (\<forall>count' f_pos'. dht11_read fp buf count' f_pos' hw s
        = Inr (r\<lparr>rd_f_pos := f_pos'\<rparr>, s))"
  using assms
  by (auto simp: dht11_read_def ioread32_def io_mapped_def copy_to_user_def bytes_of_u32_def
      EACCES_def)

theorem read_ignores_count_and_position_witness:
  "io_mapped attached_example \<and>
   dht11_read 0 \<lparr>ub_writable = 4\<rparr> 1 0 sensor_example attached_example
     = Inr (\<lparr>rd_ret = 4, rd_user = [0x78, 0x56, 0x34, 0x12], rd_f_pos = 0\<rparr>, attached_example) \<and>
   dht11_read 0 \<lparr>ub_writable = 4\<rparr> 0 100 sensor_example attached_example
     = Inr (\<lparr>rd_ret = 4, rd_user = [0x78, 0x56, 0x34, 0x12], rd_f_pos = 100\<rparr>, attached_example)"
proof -
  have a: "dht11_read 0 \<lparr>ub_writable = 4\<rparr> 1 0 sensor_example attached_example
     = Inr (\<lparr>rd_ret = 4, rd_user = [0x78, 0x56, 0x34, 0x12], rd_f_pos = 0\<rparr>, attached_example)"
    by (simp add: dht11_read_def ioread32_def attached_example_def copy_to_user_def
        bytes_of_u32_def sensor_example_def)
  from read_ignores_count_and_position [OF io_mapped_attached_example,
      of 0 "\<lparr>ub_writable = 4\<rparr>" 1 0 sensor_example] a io_mapped_attached_example
  show ?thesis by auto
qed

subsection \<open>Open and close\<close>

text \<open>
  C10. \<open>dht11_open\<close> and \<open>dht11_close\<close> return 0 in every state and for every argument, and
  leave the driver state, globals and kernel objects alike, as it was.
\<close>

theorem open_close_return_zero:
  "dht11_open inode fp s = (0, s) \<and> dht11_close inode fp s = (0, s)"
  by (simp add: dht11_open_def dht11_close_def)

end
